theory Spec2Isabelle
  imports Complex_Main "HOL-Library.Word" "HOL-Library.Sublist" "HOL-Library.Stream"
begin

section \<open>Wall carving (mf\_v5/doors.py)\<close>

text \<open>
  Coordinates are Python floats in the source; they are modelled as \<^typ>\<open>real\<close>, that is,
  arithmetic is taken to be exact. The constant \<open>EPSILON\<close> is imported by the source from
  the package's \<open>config\<close> module; it is a parameter of every definition that reads it.
\<close>

text \<open>
  Modelled from the spec: the classes \<open>DoorOpening\<close> and \<open>WallSegment\<close> of the module
  \<open>mf_v5/datamodel.py\<close>. The fields are those of the data model (room identifier, side
  tag, centre, width and height of an opening; room identifier, side tag, the two endpoints,
  height and thickness of a segment), in the order in which \<open>doors.py\<close> passes them to
  the constructors, under the names by which it reads them.
\<close>

record DoorOpening =
  room_id :: int
  side :: string
  center :: "real \<times> real"
  width :: real
  height :: real

record WallSegment =
  room_id :: int
  side :: string
  x1 :: real
  y1 :: real
  x2 :: real
  y2 :: real
  height :: real
  thickness :: real

text \<open>\<open>sorted((a, b))\<close> on a pair of numbers, unpacked as \<open>(lo, hi)\<close>.\<close>

definition sorted2 :: "real \<Rightarrow> real \<Rightarrow> real \<times> real" where
  "sorted2 a b = (if b < a then (b, a) else (a, b))"

definition split_horizontal :: "real \<Rightarrow> WallSegment \<Rightarrow> real \<Rightarrow> real \<Rightarrow> WallSegment list" where
  "split_horizontal EPSILON seg cx door_width =
     (let left_end = cx - door_width / 2;
          right_start = cx + door_width / 2;
          (x_min, x_max) = sorted2 (x1 seg) (x2 seg);
          pieces = [];
          pieces = (if left_end - x_min > EPSILON
                    then pieces @ [\<lparr>WallSegment.room_id = WallSegment.room_id seg,
                                    side = WallSegment.side seg,
                                    x1 = x_min, y1 = y1 seg, x2 = left_end, y2 = y2 seg,
                                    height = WallSegment.height seg, thickness = thickness seg\<rparr>]
                    else pieces);
          pieces = (if x_max - right_start > EPSILON
                    then pieces @ [\<lparr>WallSegment.room_id = WallSegment.room_id seg,
                                    side = WallSegment.side seg,
                                    x1 = right_start, y1 = y1 seg, x2 = x_max, y2 = y2 seg,
                                    height = WallSegment.height seg, thickness = thickness seg\<rparr>]
                    else pieces)
      in pieces)"

definition split_vertical :: "real \<Rightarrow> WallSegment \<Rightarrow> real \<Rightarrow> real \<Rightarrow> WallSegment list" where
  "split_vertical EPSILON seg cy door_width =
     (let bottom_end = cy - door_width / 2;
          top_start = cy + door_width / 2;
          (y_min, y_max) = sorted2 (y1 seg) (y2 seg);
          pieces = [];
          pieces = (if bottom_end - y_min > EPSILON
                    then pieces @ [\<lparr>WallSegment.room_id = WallSegment.room_id seg,
                                    side = WallSegment.side seg,
                                    x1 = x1 seg, y1 = y_min, x2 = x2 seg, y2 = bottom_end,
                                    height = WallSegment.height seg, thickness = thickness seg\<rparr>]
                    else pieces);
          pieces = (if y_max - top_start > EPSILON
                    then pieces @ [\<lparr>WallSegment.room_id = WallSegment.room_id seg,
                                    side = WallSegment.side seg,
                                    x1 = x1 seg, y1 = top_start, x2 = x2 seg, y2 = y_max,
                                    height = WallSegment.height seg, thickness = thickness seg\<rparr>]
                    else pieces)
      in pieces)"

text \<open>
  The grouping loop of \<open>carve_doors\<close>: a \<open>defaultdict(list)\<close> keyed by
  \<open>(room_id, side)\<close>, each opening appended to the list of its key, in input order.
\<close>

definition openings_by_room_side ::
  "DoorOpening list \<Rightarrow> (int \<times> string \<rightharpoonup> DoorOpening list)" where
  "openings_by_room_side openings =
     fold (\<lambda>d m. let k = (DoorOpening.room_id d, DoorOpening.side d)
                  in m(k \<mapsto> (case m k of None \<Rightarrow> [] | Some ds \<Rightarrow> ds) @ [d]))
          openings Map.empty"

text \<open>\<open>openings_by_room_side.get(key, [])\<close>.\<close>

definition get_openings ::
  "(int \<times> string \<rightharpoonup> DoorOpening list) \<Rightarrow> int \<times> string \<Rightarrow> DoorOpening list" where
  "get_openings m k = (case m k of None \<Rightarrow> [] | Some ds \<Rightarrow> ds)"

text \<open>
  The body of the loop \<open>for p in current_pieces\<close>: the pieces that the piece \<open>p\<close>
  contributes to \<open>next_pieces\<close> for one opening. The axis is chosen by the side of the
  original segment.
\<close>

definition carve_piece :: "real \<Rightarrow> string \<Rightarrow> DoorOpening \<Rightarrow> WallSegment \<Rightarrow> WallSegment list" where
  "carve_piece EPSILON seg_side opening p =
     (if seg_side = ''north'' \<or> seg_side = ''south'' then
        (let (p_min, p_max) = sorted2 (x1 p) (x2 p) in
         if fst (center opening) > p_min + EPSILON \<and> fst (center opening) < p_max - EPSILON
         then split_horizontal EPSILON p (fst (center opening)) (width opening)
         else [p])
      else
        (let (p_min, p_max) = sorted2 (y1 p) (y2 p) in
         if snd (center opening) > p_min + EPSILON \<and> snd (center opening) < p_max - EPSILON
         then split_vertical EPSILON p (snd (center opening)) (width opening)
         else [p]))"

text \<open>The body of the loop \<open>for opening in room_openings\<close>.\<close>

definition apply_opening ::
  "real \<Rightarrow> string \<Rightarrow> DoorOpening \<Rightarrow> WallSegment list \<Rightarrow> WallSegment list" where
  "apply_opening EPSILON seg_side opening current_pieces =
     concat (map (carve_piece EPSILON seg_side opening) current_pieces)"

text \<open>
  The body of the loop \<open>for seg in segments\<close>: what one segment of the room
  \<open>room_id\<close> adds to \<open>out\<close>.
\<close>

definition carve_segment ::
  "real \<Rightarrow> (int \<times> string \<rightharpoonup> DoorOpening list) \<Rightarrow> int \<Rightarrow> WallSegment \<Rightarrow> WallSegment list" where
  "carve_segment EPSILON obrs rid seg =
     (let room_openings = get_openings obrs (rid, WallSegment.side seg) in
      if room_openings = [] then [seg]
      else fold (apply_opening EPSILON (WallSegment.side seg)) room_openings [seg])"

text \<open>
  \<open>carve_doors\<close>: the dictionaries \<open>wall_segments\<close> and \<open>carved\<close> are maps from room
  identifiers to segment lists; every key of the input is a key of the output.
\<close>

definition carve_doors ::
  "real \<Rightarrow> (int \<rightharpoonup> WallSegment list) \<Rightarrow> DoorOpening list \<Rightarrow> (int \<rightharpoonup> WallSegment list)" where
  "carve_doors EPSILON wall_segments openings =
     (\<lambda>rid. case wall_segments rid of
              None \<Rightarrow> None
            | Some segments \<Rightarrow>
                Some (concat (map (carve_segment EPSILON (openings_by_room_side openings) rid)
                                  segments)))"

text \<open>
  The length of a segment as the mesh builder computes it
  (\<open>create_wall_mesh\<close>: \<open>(dx**2 + dy**2)**0.5\<close>).
\<close>

definition seg_length :: "WallSegment \<Rightarrow> real" where
  "seg_length s = sqrt ((x2 s - x1 s)\<^sup>2 + (y2 s - y1 s)\<^sup>2)"

text \<open>
  Notions used to state the carving properties: the openings that match a segment stored
  under the room \<open>rid\<close> (the key \<open>(room_id, seg.side)\<close> of the lookup), a wall that runs
  along its carving axis, and an opening centred on the span of the segment.
\<close>

definition horizontal_side :: "string \<Rightarrow> bool" where
  "horizontal_side sd = (sd = ''north'' \<or> sd = ''south'')"

definition matching_openings :: "int \<Rightarrow> WallSegment \<Rightarrow> DoorOpening list \<Rightarrow> DoorOpening list" where
  "matching_openings rid seg openings =
     filter (\<lambda>d. DoorOpening.room_id d = rid \<and> DoorOpening.side d = WallSegment.side seg) openings"

definition axis_aligned :: "WallSegment \<Rightarrow> bool" where
  "axis_aligned seg =
     (if horizontal_side (WallSegment.side seg) then y1 seg = y2 seg else x1 seg = x2 seg)"

definition centered_opening :: "DoorOpening \<Rightarrow> WallSegment \<Rightarrow> bool" where
  "centered_opening d seg =
     (if horizontal_side (WallSegment.side seg)
      then fst (center d) = (x1 seg + x2 seg) / 2
      else snd (center d) = (y1 seg + y2 seg) / 2)"

text \<open>
  Concrete inputs: a wall of length one on the north side of room 1, three openings of
  that room, and a wall of length zero.
\<close>

definition unit_wall :: WallSegment where
  "unit_wall = \<lparr>WallSegment.room_id = 1, side = ''north'', x1 = 0, y1 = 0, x2 = 1, y2 = 0,
                 height = 3, thickness = 1/5\<rparr>"

definition wide_opening :: DoorOpening where
  "wide_opening = \<lparr>DoorOpening.room_id = 1, side = ''north'', center = (1/2, 0),
                    width = 999/1000, height = 2\<rparr>"

definition half_opening :: DoorOpening where
  "half_opening = \<lparr>DoorOpening.room_id = 1, side = ''north'', center = (1/2, 0),
                    width = 1/2, height = 2\<rparr>"

definition south_opening :: DoorOpening where
  "south_opening = \<lparr>DoorOpening.room_id = 1, side = ''south'', center = (1/2, 0),
                     width = 1/2, height = 2\<rparr>"

definition point_wall :: WallSegment where
  "point_wall = \<lparr>WallSegment.room_id = 1, side = ''east'', x1 = 2, y1 = 5, x2 = 2, y2 = 5,
                  height = 3, thickness = 1/5\<rparr>"

section \<open>Roof topology (mf\_v5/roof.py)\<close>

text \<open>
  Modelled from the spec: the class \<open>Rect\<close> and the enumeration \<open>RoofType\<close> of the
  module \<open>mf_v5/datamodel.py\<close>. \<open>Rect\<close> is an axis-aligned rectangle with the four
  fields that \<open>build_roof\<close> reads. \<open>RoofType\<close> has the four members FLAT, HIP, GABLED
  and SHED; since Python does not enforce the annotation of the argument, any other value a
  caller passes is \<open>Unrecognized\<close>, with a tag that tells such values apart.
  \<open>ROOF_HEIGHT\<close>, a constant of the package's \<open>config\<close> module, is a parameter.
\<close>

record Rect =
  min_x :: real
  min_y :: real
  max_x :: real
  max_y :: real

datatype RoofType = FLAT | HIP | GABLED | SHED | Unrecognized string

type_synonym vertex = "real \<times> real \<times> real"

datatype RoofFace = RoofFace (vertices: "vertex list")

datatype RoofGeometry = RoofGeometry (roof_type: RoofType) (faces: "RoofFace list")

function build_roof :: "real \<Rightarrow> Rect \<Rightarrow> real \<Rightarrow> RoofType \<Rightarrow> RoofGeometry" where
  "build_roof ROOF_HEIGHT footprint base_z HIP =
     (let cx = (min_x footprint + max_x footprint) / 2;
          cy = (min_y footprint + max_y footprint) / 2;
          apex = (cx, cy, base_z + ROOF_HEIGHT);
          corners = [(min_x footprint, min_y footprint, base_z),
                     (max_x footprint, min_y footprint, base_z),
                     (max_x footprint, max_y footprint, base_z),
                     (min_x footprint, max_y footprint, base_z)];
          faces = [RoofFace [corners ! 0, corners ! 1, apex],
                   RoofFace [corners ! 1, corners ! 2, apex],
                   RoofFace [corners ! 2, corners ! 3, apex],
                   RoofFace [corners ! 3, corners ! 0, apex],
                   RoofFace [corners ! 3, corners ! 2, corners ! 1, corners ! 0]]
      in RoofGeometry HIP faces)"
| "build_roof ROOF_HEIGHT footprint base_z FLAT =
     (let faces = [RoofFace [(min_x footprint, min_y footprint, base_z),
                             (max_x footprint, min_y footprint, base_z),
                             (max_x footprint, max_y footprint, base_z),
                             (min_x footprint, max_y footprint, base_z)],
                   RoofFace [(min_x footprint, max_y footprint, base_z),
                             (max_x footprint, max_y footprint, base_z),
                             (max_x footprint, min_y footprint, base_z),
                             (min_x footprint, min_y footprint, base_z)]]
      in RoofGeometry FLAT faces)"
| "build_roof ROOF_HEIGHT footprint base_z GABLED =
     (let mid_x = (min_x footprint + max_x footprint) / 2;
          ridge_a = (mid_x, min_y footprint, base_z + ROOF_HEIGHT);
          ridge_b = (mid_x, max_y footprint, base_z + ROOF_HEIGHT);
          c0 = (min_x footprint, min_y footprint, base_z);
          c1 = (max_x footprint, min_y footprint, base_z);
          c2 = (max_x footprint, max_y footprint, base_z);
          c3 = (min_x footprint, max_y footprint, base_z);
          faces = [RoofFace [c0, ridge_a, ridge_b, c3],
                   RoofFace [c1, c2, ridge_b, ridge_a],
                   RoofFace [c0, c1, ridge_a],
                   RoofFace [c3, ridge_b, c2],
                   RoofFace [c3, c2, c1, c0]]
      in RoofGeometry GABLED faces)"
| "build_roof ROOF_HEIGHT footprint base_z SHED =
     (let c0 = (min_x footprint, min_y footprint, base_z);
          c1 = (max_x footprint, min_y footprint, base_z + ROOF_HEIGHT);
          c2 = (max_x footprint, max_y footprint, base_z + ROOF_HEIGHT);
          c3 = (min_x footprint, max_y footprint, base_z);
          b0 = (min_x footprint, min_y footprint, base_z);
          b1 = (max_x footprint, min_y footprint, base_z);
          b2 = (max_x footprint, max_y footprint, base_z);
          b3 = (min_x footprint, max_y footprint, base_z);
          faces = [RoofFace [c0, c1, c2, c3],
                   RoofFace [b0, b1, c1, c0],
                   RoofFace [b1, b2, c2, c1],
                   RoofFace [b2, b3, c3, c2],
                   RoofFace [b3, b0, c0, c3],
                   RoofFace [b3, b2, b1, b0]]
      in RoofGeometry SHED faces)"
| "build_roof ROOF_HEIGHT footprint base_z (Unrecognized other) =
     build_roof ROOF_HEIGHT footprint base_z FLAT"
  by pat_completeness auto
termination
  by (relation "measure (\<lambda>(ROOF_HEIGHT, footprint, base_z, t). if t = FLAT then 0 else 1)") auto

text \<open>
  Notions used to state the shape of the gabled roof: the ridge is the edge that the two
  slope faces share, read off the first slope face; a segment between two vertices runs
  along the x axis (or the y axis) when only that coordinate changes.
\<close>

definition ridge_of :: "RoofGeometry \<Rightarrow> vertex \<times> vertex" where
  "ridge_of g = (vertices (faces g ! 0) ! 1, vertices (faces g ! 0) ! 2)"

definition along_x_axis :: "vertex \<times> vertex \<Rightarrow> bool" where
  "along_x_axis e = (case e of ((ax, ay, az), (bx, by, bz)) \<Rightarrow> ay = by \<and> az = bz)"

definition along_y_axis :: "vertex \<times> vertex \<Rightarrow> bool" where
  "along_y_axis e = (case e of ((ax, ay, az), (bx, by, bz)) \<Rightarrow> ax = bx \<and> az = bz)"

definition x_span :: "Rect \<Rightarrow> real" where
  "x_span r = max_x r - min_x r"

definition y_span :: "Rect \<Rightarrow> real" where
  "y_span r = max_y r - min_y r"

text \<open>Concrete footprints: the square of the test suite, and a narrow, deep rectangle.\<close>

definition square_footprint :: Rect where
  "square_footprint = \<lparr>min_x = 0, min_y = 0, max_x = 10, max_y = 10\<rparr>"

definition narrow_footprint :: Rect where
  "narrow_footprint = \<lparr>min_x = 0, min_y = 0, max_x = 4, max_y = 10\<rparr>"

section \<open>Seeded randomness and the golden split (blenpc/atoms/wall.py, blenpc/config.py)\<close>

datatype py_error = ValueError string | StructError | AttributeError string

type_synonym byte = "8 word"

text \<open>
  A generator of Python's \<open>random.Random\<close> is modelled by the sequence of the values its
  method \<open>random()\<close> will return: a call returns the head and leaves the tail.
\<close>

type_synonym rng = "real stream"

definition rng_random :: "rng \<Rightarrow> real \<times> rng" where
  "rng_random r = (shd r, stl r)"

subsection \<open>make\_rng\<close>

text \<open>\<open>str(n)\<close> of an integer, as the f-string writes the seed: decimal digits, with a sign.\<close>

fun str_nat :: "nat \<Rightarrow> string" where
  "str_nat n = (if n < 10 then [char_of (48 + n)] else str_nat (n div 10) @ [char_of (48 + n mod 10)])"

declare str_nat.simps [simp del]

definition str_int :: "int \<Rightarrow> string" where
  "str_int i = (if i < 0 then ''-'' @ str_nat (nat (- i)) else str_nat (nat i))"

text \<open>
  \<open>str.encode()\<close>: the subsystem name is given by the bytes of its UTF-8 encoding, one
  \<^typ>\<open>char\<close> per byte, so encoding maps each character to its byte.
\<close>

definition encode :: "string \<Rightarrow> byte list" where
  "encode s = map of_char s"

text \<open>
  \<open>struct.unpack('<Q', b)[0]\<close>: the buffer must hold exactly 8 bytes; the first byte is
  the least significant.
\<close>

definition struct_unpack_Q_le :: "byte list \<Rightarrow> py_error + nat" where
  "struct_unpack_Q_le b =
     (if length b \<noteq> 8 then Inl StructError
      else Inr (foldr (\<lambda>x acc. unat x + 256 * acc) b 0))"

text \<open>
  The state of the running process that a call can see besides its arguments: the counter
  from which new objects take their identity, the operating system's entropy source and
  the clock.
\<close>

record world =
  next_id :: nat
  entropy :: "nat stream"
  clock :: nat

text \<open>
  A generator object: its identity, and the sequence of the values \<open>random()\<close> will
  return.
\<close>

record rng_obj =
  obj_id :: nat
  rng_state :: rng

text \<open>
  The library constructor \<open>random.Random(a)\<close> for an integer \<open>a\<close>: a new object, whose
  state the Mersenne Twister derives from \<open>a\<close>. The derivation is the parameter \<open>mt\<close>,
  from the seed to the output sequence.
\<close>

definition Random :: "(nat \<Rightarrow> rng) \<Rightarrow> nat \<Rightarrow> world \<Rightarrow> rng_obj \<times> world" where
  "Random mt a w = (\<lparr>obj_id = next_id w, rng_state = mt a\<rparr>, w\<lparr>next_id := Suc (next_id w)\<rparr>)"

text \<open>
  \<open>make_rng\<close>, run in a state of the process: it returns the generator and the state it
  leaves. The library function \<open>hashlib.sha256(m).digest()\<close> is the parameter
  \<open>sha256\<close>, from a message to its digest.
\<close>

definition make_rng ::
  "(byte list \<Rightarrow> byte list) \<Rightarrow> (nat \<Rightarrow> rng) \<Rightarrow> int \<Rightarrow> string \<Rightarrow> world
     \<Rightarrow> py_error + rng_obj \<times> world" where
  "make_rng sha256 mt seed subsystem w =
     (let h = sha256 (encode (str_int seed @ '':'' @ subsystem)) in
      case struct_unpack_Q_le (take 8 h) of
        Inl e \<Rightarrow> Inl e
      | Inr sub_seed \<Rightarrow> Inr (Random mt sub_seed w))"

text \<open>
  The seed as the specification words it, defined apart from the code above. The string
  \<open>"{seed}:{subsystem}"\<close> is the decimal numeral of the seed (a minus sign if it is
  negative, then its digits, the most significant first), a colon, and the name; its bytes
  are the ASCII codes of the numeral and of the colon, then the bytes of the name. The seed
  of the generator is the unsigned 64-bit word whose bytes, the least significant first,
  are the first 8 bytes of the digest of that string.
\<close>

fun dec_digits :: "nat \<Rightarrow> nat list" where
  "dec_digits n = (if n < 10 then [n] else n mod 10 # dec_digits (n div 10))"

declare dec_digits.simps [simp del]

definition spec_decimal :: "int \<Rightarrow> byte list" where
  "spec_decimal i =
     (if i < 0 then [0x2D] else []) @ map (\<lambda>d. of_nat (48 + d)) (rev (dec_digits (nat \<bar>i\<bar>)))"

definition spec_message :: "int \<Rightarrow> string \<Rightarrow> byte list" where
  "spec_message seed subsystem =
     spec_decimal seed @ [0x3A] @ map (\<lambda>c. of_nat (of_char c)) subsystem"

definition spec_sub_seed :: "(byte list \<Rightarrow> byte list) \<Rightarrow> int \<Rightarrow> string \<Rightarrow> nat" where
  "spec_sub_seed sha256 seed subsystem =
     unat (word_rcat (rev (take 8 (sha256 (spec_message seed subsystem)))) :: 64 word)"

subsection \<open>golden\_split\<close>

definition GRID_UNIT :: real where
  "GRID_UNIT = 25 / 100"

definition PHI :: real where
  "PHI = (1 + sqrt 5) / 2"

definition GOLDEN_RATIO_VARIATION :: real where
  "GOLDEN_RATIO_VARIATION = 4 / 100"

text \<open>
  Python's \<open>round(x)\<close> of a float with one argument: the nearest integer, a tie going to
  the even neighbour.
\<close>

definition py_round :: "real \<Rightarrow> int" where
  "py_round x =
     (let f = \<lfloor>x\<rfloor>; d = x - of_int f
      in if d < 1/2 then f else if 1/2 < d then f + 1 else if even f then f else f + 1)"

text \<open>\<open>golden_split\<close> returns the split and leaves the generator one draw further.\<close>

definition golden_split :: "real \<Rightarrow> rng \<Rightarrow> real \<times> rng" where
  "golden_split length' rng =
     (let split_point = length' / PHI;
          (u, rng) = rng_random rng;
          variation = (u - 1/2) * GOLDEN_RATIO_VARIATION * length';
          final_split = split_point + variation
      in (of_int (py_round (final_split / GRID_UNIT)) * GRID_UNIT, rng))"

text \<open>
  Concrete inputs: a generator whose every draw is one half; a stand-in digest function that
  pads or cuts the message to 32 bytes and a stand-in for the Mersenne Twister; two states
  of the process that differ in every field.
\<close>

definition half_rng :: rng where
  "half_rng = sconst (1/2)"

definition sample_digest :: "byte list \<Rightarrow> byte list" where
  "sample_digest m = take 32 (m @ replicate 32 0)"

definition sample_mt :: "nat \<Rightarrow> rng" where
  "sample_mt n = sconst (1 / (1 + real n))"

definition world_a :: world where
  "world_a = \<lparr>next_id = 7, entropy = sconst 3, clock = 100\<rparr>"

definition world_b :: world where
  "world_b = \<lparr>next_id = 8, entropy = sconst 5, clock = 250\<rparr>"

section \<open>Door anatomy and slots (blenpc/atoms/door.py)\<close>

text \<open>
  \<open>build_door\<close> reads the attribute \<open>config.DOOR_STANDARDS\<close> of the module
  \<open>blenpc/config.py\<close>, a table from a style to the values under \<open>"w"\<close> and \<open>"h"\<close>.
  That module binds no name \<open>DOOR_STANDARDS\<close>: the attribute has no value, and reading
  it raises \<open>AttributeError\<close>.
\<close>

record door_dims =
  dim_w :: real
  dim_h :: real

record GridPos =
  gx :: int
  gy :: int
  gz :: int

definition config_DOOR_STANDARDS :: "(string \<times> door_dims) list option" where
  "config_DOOR_STANDARDS = None"

definition get_DOOR_STANDARDS :: "py_error + (string \<times> door_dims) list" where
  "get_DOOR_STANDARDS =
     (case config_DOOR_STANDARDS of
        None \<Rightarrow> Inl (AttributeError ''DOOR_STANDARDS'')
      | Some table \<Rightarrow> Inr table)"

text \<open>
  \<open>build_door\<close> also calls \<open>GridPos.from_meters\<close> and \<open>meters_to_units\<close> of the
  module \<open>engine/grid_pos.py\<close>; these are parameters, gathered in the record
  \<open>externals\<close> together with the conversion of a float to text that the f-string of the
  size tag performs. A \<open>GridPos\<close> is built from three integers.
\<close>

record externals =
  from_meters :: "real \<Rightarrow> real \<Rightarrow> real \<Rightarrow> string \<Rightarrow> GridPos"
  meters_to_units :: "real \<Rightarrow> int"
  format_float :: "real \<Rightarrow> string"

text \<open>
  The dictionaries of a part, of a slot and of the metadata are records with one field per
  key; the key \<open>"swing"\<close> is present in the leaf only.
\<close>

record DoorPart =
  part_type :: string
  part_position :: "real list"
  part_size :: "real list"
  part_material :: string
  part_swing :: "string option"

record DoorSlot =
  slot_id :: string
  slot_type :: string
  slot_grid_pos :: GridPos
  pos_meters :: "real \<times> real \<times> real"
  size_meters :: "real \<times> real"
  required :: bool
  occupied :: bool

record DoorMeta =
  width_m :: real
  height_m :: real
  meta_style :: string
  meta_material :: string
  meta_swing :: string
  frame_thickness :: real
  leaf_thickness :: real
  part_count :: nat
  slot_count :: nat
  aabb_min :: "real list"
  aabb_max :: "real list"

record DoorData =
  name :: string
  grid_pos :: GridPos
  grid_size :: "int \<times> int \<times> int"
  snap_mode :: string
  style :: string
  material :: string
  swing :: string
  parts :: "(string \<times> DoorPart) list"
  slots :: "DoorSlot list"
  tags :: "string list"
  meta :: DoorMeta

text \<open>
  The text of a list of strings as an f-string writes it: each element between single
  quotes, separated by a comma and a space, within brackets. This is Python's \<open>repr\<close> of
  strings that hold no quote, backslash or unprintable character, as all names here do.
\<close>

definition py_repr_str :: "string \<Rightarrow> string" where
  "py_repr_str s = [CHR 0x27] @ s @ [CHR 0x27]"

fun join_strs :: "string \<Rightarrow> string list \<Rightarrow> string" where
  "join_strs sep [] = []"
| "join_strs sep [x] = x"
| "join_strs sep (x # y # ys) = x @ sep @ join_strs sep (y # ys)"

definition py_str_list :: "string list \<Rightarrow> string" where
  "py_str_list xs = ''['' @ join_strs '', '' (map py_repr_str xs) @ '']''"

definition valid_materials :: "string list" where
  "valid_materials = [''wood'', ''glass'', ''metal'', ''composite'']"

definition valid_swings :: "string list" where
  "valid_swings = [''inward_left'', ''inward_right'', ''outward_left'', ''outward_right'', ''sliding'']"

definition FRAME_THICKNESS :: real where
  "FRAME_THICKNESS = 5 / 100"

definition LEAF_THICKNESS :: real where
  "LEAF_THICKNESS = 5 / 100"

definition FRAME_DEPTH :: real where
  "FRAME_DEPTH = 15 / 100"

text \<open>
  \<open>build_door\<close>. A \<open>raise ValueError(msg)\<close> is the result \<open>Inl (ValueError msg)\<close>,
  and the failure of the first read of \<open>config.DOOR_STANDARDS\<close>, in the test of the
  style, is the result \<open>Inl (AttributeError ...)\<close>. The test \<open>"left" in swing\<close> is the
  test for a contiguous sublist.
\<close>

definition build_door ::
  "externals \<Rightarrow> string \<Rightarrow> string \<Rightarrow> string \<Rightarrow> string \<Rightarrow> (real \<times> real \<times> real) option
     \<Rightarrow> py_error + DoorData" where
  "build_door ext = (\<lambda>style material swing name position.
     case get_DOOR_STANDARDS of
       Inl e \<Rightarrow> Inl e
     | Inr DOOR_STANDARDS \<Rightarrow>
     if style \<notin> set (map fst DOOR_STANDARDS)
     then Inl (ValueError (''Invalid door style: '' @ style @ ''. Valid: ''
                           @ py_str_list (map fst DOOR_STANDARDS)))
     else if material \<notin> set valid_materials
     then Inl (ValueError (''Invalid material: '' @ material @ ''. Valid: ''
                           @ py_str_list valid_materials))
     else if swing \<notin> set valid_swings
     then Inl (ValueError (''Invalid swing: '' @ swing @ ''. Valid: ''
                           @ py_str_list valid_swings))
     else
      (let dims = the (map_of DOOR_STANDARDS style);
           width = dim_w dims;
           height = dim_h dims;
           position = (case position of None \<Rightarrow> (0, 0, 0) | Some p \<Rightarrow> p);
           grid_pos = (case position of (px, py, pz) \<Rightarrow> from_meters ext px py pz ''meso'');
           width_units = meters_to_units ext width;
           height_units = meters_to_units ext height;
           depth_units = meters_to_units ext FRAME_DEPTH;
           grid_size = (width_units, depth_units, height_units);
           parts =
             [(''frame_jamb_left'',
               \<lparr>part_type = ''frame_vertical'',
                part_position = [0, 0, 0],
                part_size = [FRAME_THICKNESS, FRAME_DEPTH, height],
                part_material = ''frame_wood'',
                part_swing = None\<rparr>),
              (''frame_jamb_right'',
               \<lparr>part_type = ''frame_vertical'',
                part_position = [width - FRAME_THICKNESS, 0, 0],
                part_size = [FRAME_THICKNESS, FRAME_DEPTH, height],
                part_material = ''frame_wood'',
                part_swing = None\<rparr>),
              (''frame_head'',
               \<lparr>part_type = ''frame_horizontal'',
                part_position = [0, 0, height - FRAME_THICKNESS],
                part_size = [width, FRAME_DEPTH, FRAME_THICKNESS],
                part_material = ''frame_wood'',
                part_swing = None\<rparr>),
              (''door_leaf'',
               \<lparr>part_type = ''leaf'',
                part_position = [FRAME_THICKNESS, FRAME_DEPTH / 2, FRAME_THICKNESS],
                part_size = [width - 2 * FRAME_THICKNESS, LEAF_THICKNESS,
                             height - 2 * FRAME_THICKNESS],
                part_material = material,
                part_swing = Some swing\<rparr>)];
           slots = [];
           wall_interface_slot =
             \<lparr>slot_id = ''wall_interface'',
              slot_type = ''door_opening'',
              slot_grid_pos = \<lparr>gx = width_units div 2, gy = depth_units div 2,
                                gz = height_units div 2\<rparr>,
              pos_meters = (width / 2, FRAME_DEPTH / 2, height / 2),
              size_meters = (width, height),
              required = True,
              occupied = False\<rparr>;
           slots = slots @ [wall_interface_slot];
           knob_x = (if sublist ''left'' swing then width - 1/10 else 1/10);
           knob_z = 95 / 100;
           doorknob_slot =
             \<lparr>slot_id = ''doorknob'',
              slot_type = ''door_hardware'',
              slot_grid_pos = from_meters ext knob_x (FRAME_DEPTH / 2) knob_z ''micro'',
              pos_meters = (knob_x, FRAME_DEPTH / 2, knob_z),
              size_meters = (6 / 100, 6 / 100),
              required = False,
              occupied = False\<rparr>;
           slots = slots @ [doorknob_slot];
           hinge_x = (if sublist ''left'' swing then 5 / 100 else width - 5 / 100);
           hinge_top_slot =
             \<lparr>slot_id = ''hinge_top'',
              slot_type = ''door_hinge'',
              slot_grid_pos = from_meters ext hinge_x (FRAME_DEPTH / 2) (height - 2 / 10) ''micro'',
              pos_meters = (hinge_x, FRAME_DEPTH / 2, height - 2 / 10),
              size_meters = (4 / 100, 1 / 10),
              required = True,
              occupied = False\<rparr>;
           slots = slots @ [hinge_top_slot];
           hinge_bot_slot =
             \<lparr>slot_id = ''hinge_bot'',
              slot_type = ''door_hinge'',
              slot_grid_pos = from_meters ext hinge_x (FRAME_DEPTH / 2) (3 / 10) ''micro'',
              pos_meters = (hinge_x, FRAME_DEPTH / 2, 3 / 10),
              size_meters = (4 / 100, 1 / 10),
              required = True,
              occupied = False\<rparr>;
           slots = slots @ [hinge_bot_slot];
           tags = [''arch_door'',
                   ''door_'' @ style,
                   ''mat_'' @ material,
                   ''swing_'' @ swing,
                   ''size_'' @ format_float ext width @ ''m'',
                   ''modular_v2''];
           meta = \<lparr>width_m = width,
                   height_m = height,
                   meta_style = style,
                   meta_material = material,
                   meta_swing = swing,
                   frame_thickness = FRAME_THICKNESS,
                   leaf_thickness = LEAF_THICKNESS,
                   part_count = length parts,
                   slot_count = length slots,
                   aabb_min = [0, 0, 0],
                   aabb_max = [width, FRAME_DEPTH, height]\<rparr>
       in Inr \<lparr>name = name,
                grid_pos = grid_pos,
                grid_size = grid_size,
                snap_mode = ''meso'',
                style = style,
                material = material,
                swing = swing,
                parts = parts,
                slots = slots,
                tags = tags,
                meta = meta\<rparr>))"

section \<open>Properties of wall carving\<close>

subsection \<open>The grouping of openings\<close>

lemma get_fold_aux:
  "get_openings (fold (\<lambda>d m. let k = (DoorOpening.room_id d, DoorOpening.side d)
                  in m(k \<mapsto> (case m k of None \<Rightarrow> [] | Some ds \<Rightarrow> ds) @ [d])) ops m0) k
   = get_openings m0 k @ filter (\<lambda>d. (DoorOpening.room_id d, DoorOpening.side d) = k) ops"
  by (induction ops arbitrary: m0) (auto simp: get_openings_def Let_def)

lemma get_openings_by_room_side:
  "get_openings (openings_by_room_side ops) k
   = filter (\<lambda>d. (DoorOpening.room_id d, DoorOpening.side d) = k) ops"
  unfolding openings_by_room_side_def by (simp add: get_fold_aux) (simp add: get_openings_def)

lemma get_matching:
  "get_openings (openings_by_room_side ops) (rid, WallSegment.side seg)
   = matching_openings rid seg ops"
  by (simp add: get_openings_by_room_side matching_openings_def)

lemma carve_segment_no_match:
  assumes "\<forall>d\<in>set ops. DoorOpening.room_id d = rid \<longrightarrow> DoorOpening.side d \<noteq> WallSegment.side seg"
  shows "carve_segment eps (openings_by_room_side ops) rid seg = [seg]"
proof -
  have "matching_openings rid seg ops = []"
    using assms by (auto simp: matching_openings_def filter_empty_conv)
  then show ?thesis
    by (simp add: carve_segment_def get_matching)
qed

lemma carve_segment_single:
  assumes "matching_openings rid seg ops = [d]"
  shows "carve_segment eps (openings_by_room_side ops) rid seg
         = carve_piece eps (WallSegment.side seg) d seg"
  using assms by (simp add: carve_segment_def get_matching apply_opening_def)

lemma carve_doors_at:
  assumes "wall_segments rid = Some (pre @ seg # post)"
  shows "carve_doors eps wall_segments openings rid =
     Some (concat (map (carve_segment eps (openings_by_room_side openings) rid) pre)
           @ carve_segment eps (openings_by_room_side openings) rid seg
           @ concat (map (carve_segment eps (openings_by_room_side openings) rid) post))"
  using assms by (simp add: carve_doors_def)

lemma carve_doors_no_openings: "carve_doors eps ws [] = ws"
proof (rule ext)
  fix rid
  have "concat (map (carve_segment eps (openings_by_room_side []) rid) segs) = segs" for segs
    by (induction segs) (simp_all add: carve_segment_no_match)
  then show "carve_doors eps ws [] rid = ws rid"
    by (simp add: carve_doors_def split: option.splits)
qed

lemma carve_doors_empty: "carve_doors eps Map.empty ops = Map.empty"
  by (rule ext) (simp add: carve_doors_def)

subsection \<open>Lengths\<close>

lemma abs_dx_le_seg_length: "\<bar>x2 s - x1 s\<bar> \<le> seg_length s"
proof -
  have "\<bar>x2 s - x1 s\<bar> = sqrt ((x2 s - x1 s)\<^sup>2)" by simp
  also have "\<dots> \<le> seg_length s"
    unfolding seg_length_def by (rule real_sqrt_le_mono) simp
  finally show ?thesis .
qed

lemma abs_dy_le_seg_length: "\<bar>y2 s - y1 s\<bar> \<le> seg_length s"
proof -
  have "\<bar>y2 s - y1 s\<bar> = sqrt ((y2 s - y1 s)\<^sup>2)" by simp
  also have "\<dots> \<le> seg_length s"
    unfolding seg_length_def by (rule real_sqrt_le_mono) simp
  finally show ?thesis .
qed

lemma seg_length_horizontal: "y1 s = y2 s \<Longrightarrow> seg_length s = \<bar>x2 s - x1 s\<bar>"
  by (simp add: seg_length_def)

lemma seg_length_vertical: "x1 s = x2 s \<Longrightarrow> seg_length s = \<bar>y2 s - y1 s\<bar>"
  by (simp add: seg_length_def)

lemma unit_wall_length: "seg_length unit_wall = 1"
  by (simp add: seg_length_def unit_wall_def)

lemma split_horizontal_long:
  assumes "p \<in> set (split_horizontal eps seg cx w)"
  shows "eps < seg_length p"
proof -
  have "eps < x2 p - x1 p"
    using assms by (auto simp: split_horizontal_def sorted2_def Let_def split: if_splits)
  with abs_dx_le_seg_length [of p] show ?thesis by linarith
qed

lemma split_vertical_long:
  assumes "p \<in> set (split_vertical eps seg cy w)"
  shows "eps < seg_length p"
proof -
  have "eps < y2 p - y1 p"
    using assms by (auto simp: split_vertical_def sorted2_def Let_def split: if_splits)
  with abs_dy_le_seg_length [of p] show ?thesis by linarith
qed

subsection \<open>Every piece is an input segment or longer than epsilon\<close>

lemma carve_piece_inv:
  "q \<in> set (carve_piece eps sd d p) \<Longrightarrow> q = p \<or> eps < seg_length q"
  by (auto simp: carve_piece_def Let_def split: if_splits prod.splits
      dest: split_horizontal_long split_vertical_long)

lemma apply_opening_inv:
  "q \<in> set (apply_opening eps sd d ps) \<Longrightarrow> q \<in> set ps \<or> eps < seg_length q"
  by (auto simp: apply_opening_def dest: carve_piece_inv)

lemma fold_apply_opening_inv:
  "q \<in> set (fold (apply_opening eps sd) ds ps) \<Longrightarrow> q \<in> set ps \<or> eps < seg_length q"
proof (induction ds arbitrary: ps)
  case Nil
  then show ?case by simp
next
  case (Cons d ds)
  then have "q \<in> set (apply_opening eps sd d ps) \<or> eps < seg_length q" by simp
  then show ?case using apply_opening_inv by blast
qed

lemma carve_segment_inv:
  "q \<in> set (carve_segment eps m rid seg) \<Longrightarrow> q = seg \<or> eps < seg_length q"
  using fold_apply_opening_inv [of q eps "WallSegment.side seg" _ "[seg]"]
  by (auto simp: carve_segment_def Let_def split: if_splits)

subsection \<open>One centred opening\<close>

lemma carve_piece_centered_h:
  assumes hs: "horizontal_side (WallSegment.side seg)"
    and al: "y1 seg = y2 seg"
    and ce: "fst (center d) = (x1 seg + x2 seg) / 2"
  shows "carve_piece eps (WallSegment.side seg) d seg =
     (if seg_length seg \<le> 2 * eps then [seg]
      else if seg_length seg - width d \<le> 2 * eps then []
      else [seg\<lparr>x1 := min (x1 seg) (x2 seg), x2 := fst (center d) - width d / 2\<rparr>,
            seg\<lparr>x1 := fst (center d) + width d / 2, x2 := max (x1 seg) (x2 seg)\<rparr>])"
  using hs ce
  by (auto simp: carve_piece_def horizontal_side_def seg_length_horizontal [OF al] sorted2_def
      split_horizontal_def Let_def field_simps abs_if)

lemma carve_piece_centered_v:
  assumes hs: "\<not> horizontal_side (WallSegment.side seg)"
    and al: "x1 seg = x2 seg"
    and ce: "snd (center d) = (y1 seg + y2 seg) / 2"
  shows "carve_piece eps (WallSegment.side seg) d seg =
     (if seg_length seg \<le> 2 * eps then [seg]
      else if seg_length seg - width d \<le> 2 * eps then []
      else [seg\<lparr>y1 := min (y1 seg) (y2 seg), y2 := snd (center d) - width d / 2\<rparr>,
            seg\<lparr>y1 := snd (center d) + width d / 2, y2 := max (y1 seg) (y2 seg)\<rparr>])"
  using hs ce
  by (auto simp: carve_piece_def horizontal_side_def seg_length_vertical [OF al] sorted2_def
      split_vertical_def Let_def field_simps abs_if)

lemma carve_piece_centered:
  assumes ce: "centered_opening d seg" and al: "axis_aligned seg"
  shows "carve_piece eps (WallSegment.side seg) d seg =
     (if seg_length seg \<le> 2 * eps then [seg]
      else if seg_length seg - width d \<le> 2 * eps then []
      else if horizontal_side (WallSegment.side seg)
      then [seg\<lparr>x1 := min (x1 seg) (x2 seg), x2 := fst (center d) - width d / 2\<rparr>,
            seg\<lparr>x1 := fst (center d) + width d / 2, x2 := max (x1 seg) (x2 seg)\<rparr>]
      else [seg\<lparr>y1 := min (y1 seg) (y2 seg), y2 := snd (center d) - width d / 2\<rparr>,
            seg\<lparr>y1 := snd (center d) + width d / 2, y2 := max (y1 seg) (y2 seg)\<rparr>])"
proof (cases "horizontal_side (WallSegment.side seg)")
  case True
  with al ce have "y1 seg = y2 seg" and "fst (center d) = (x1 seg + x2 seg) / 2"
    by (simp_all add: axis_aligned_def centered_opening_def)
  from carve_piece_centered_h [OF True this] True show ?thesis by simp
next
  case False
  with al ce have "x1 seg = x2 seg" and "snd (center d) = (y1 seg + y2 seg) / 2"
    by (simp_all add: axis_aligned_def centered_opening_def)
  from carve_piece_centered_v [OF False this] False show ?thesis by simp
qed

lemma centered_pieces_length:
  assumes ce: "centered_opening d seg" and al: "axis_aligned seg" and e0: "0 \<le> eps"
    and big: "2 * eps < seg_length seg - width d"
    and pq: "carve_piece eps (WallSegment.side seg) d seg = [p, q]"
  shows "seg_length p = (seg_length seg - width d) / 2"
    and "seg_length q = (seg_length seg - width d) / 2"
proof -
  have gt: "\<not> seg_length seg - width d \<le> 2 * eps" using big by simp
  have ne: "\<not> seg_length seg \<le> 2 * eps"
  proof
    assume "seg_length seg \<le> 2 * eps"
    with pq carve_piece_centered [OF ce al, of eps] have "[seg] = [p, q]" by simp
    then show False by simp
  qed
  show "seg_length p = (seg_length seg - width d) / 2"
    and "seg_length q = (seg_length seg - width d) / 2"
  proof (atomize (full), cases "horizontal_side (WallSegment.side seg)")
    case True
    with al ce have a: "y1 seg = y2 seg" and c: "fst (center d) = (x1 seg + x2 seg) / 2"
      by (simp_all add: axis_aligned_def centered_opening_def)
    have L: "seg_length seg = \<bar>x2 seg - x1 seg\<bar>" by (rule seg_length_horizontal [OF a])
    from pq carve_piece_centered [OF ce al, of eps] gt ne True
    have p: "p = seg\<lparr>x1 := min (x1 seg) (x2 seg), x2 := fst (center d) - width d / 2\<rparr>"
      and q: "q = seg\<lparr>x1 := fst (center d) + width d / 2, x2 := max (x1 seg) (x2 seg)\<rparr>"
      by simp_all
    have "seg_length p = \<bar>fst (center d) - width d / 2 - min (x1 seg) (x2 seg)\<bar>"
      using a p by (simp add: seg_length_horizontal)
    also have "\<dots> = (seg_length seg - width d) / 2"
      using big e0 c L by (simp add: abs_if min_def field_simps split: if_splits)
    finally have lp: "seg_length p = (seg_length seg - width d) / 2" .
    have "seg_length q = \<bar>max (x1 seg) (x2 seg) - (fst (center d) + width d / 2)\<bar>"
      using a q by (simp add: seg_length_horizontal)
    also have "\<dots> = (seg_length seg - width d) / 2"
      using big e0 c L by (simp add: abs_if max_def field_simps split: if_splits)
    finally have lq: "seg_length q = (seg_length seg - width d) / 2" .
    from lp lq show "seg_length p = (seg_length seg - width d) / 2
        \<and> seg_length q = (seg_length seg - width d) / 2" by simp
  next
    case False
    with al ce have a: "x1 seg = x2 seg" and c: "snd (center d) = (y1 seg + y2 seg) / 2"
      by (simp_all add: axis_aligned_def centered_opening_def)
    have L: "seg_length seg = \<bar>y2 seg - y1 seg\<bar>" by (rule seg_length_vertical [OF a])
    from pq carve_piece_centered [OF ce al, of eps] gt ne False
    have p: "p = seg\<lparr>y1 := min (y1 seg) (y2 seg), y2 := snd (center d) - width d / 2\<rparr>"
      and q: "q = seg\<lparr>y1 := snd (center d) + width d / 2, y2 := max (y1 seg) (y2 seg)\<rparr>"
      by simp_all
    have "seg_length p = \<bar>snd (center d) - width d / 2 - min (y1 seg) (y2 seg)\<bar>"
      using a p by (simp add: seg_length_vertical)
    also have "\<dots> = (seg_length seg - width d) / 2"
      using big e0 c L by (simp add: abs_if min_def field_simps split: if_splits)
    finally have lp: "seg_length p = (seg_length seg - width d) / 2" .
    have "seg_length q = \<bar>max (y1 seg) (y2 seg) - (snd (center d) + width d / 2)\<bar>"
      using a q by (simp add: seg_length_vertical)
    also have "\<dots> = (seg_length seg - width d) / 2"
      using big e0 c L by (simp add: abs_if max_def field_simps split: if_splits)
    finally have lq: "seg_length q = (seg_length seg - width d) / 2" .
    from lp lq show "seg_length p = (seg_length seg - width d) / 2
        \<and> seg_length q = (seg_length seg - width d) / 2" by simp
  qed
qed

subsection \<open>Claims about carving\<close>

text \<open>
  Claim C1, as amended. A segment stored under room \<open>rid\<close> runs along its carving axis,
  has length \<open>L\<close>, and exactly one opening matches it, of width \<open>W\<close> and centred on its
  span; \<open>EPSILON\<close> is not negative. Then the segment contributes to the output of
  \<open>carve_doors\<close>, in its place among the other segments of the room, exactly two pieces
  whose lengths sum to \<open>L - W\<close> when \<open>L > 2 * EPSILON\<close> and \<open>L - W > 2 * EPSILON\<close>; no
  piece when \<open>L > 2 * EPSILON\<close> and \<open>L - W \<le> 2 * EPSILON\<close> (which covers \<open>W \<ge> L\<close>);
  and the segment itself, unchanged, when \<open>L \<le> 2 * EPSILON\<close>, since its centre then
  fails the strict containment test.
\<close>

theorem carve_centered_opening:
  assumes room: "wall_segments rid = Some (pre @ seg # post)"
    and one: "matching_openings rid seg openings = [d]"
    and ce: "centered_opening d seg"
    and al: "axis_aligned seg"
    and e0: "0 \<le> EPSILON"
  shows "\<exists>pieces.
      carve_doors EPSILON wall_segments openings rid =
        Some (concat (map (carve_segment EPSILON (openings_by_room_side openings) rid) pre)
              @ pieces
              @ concat (map (carve_segment EPSILON (openings_by_room_side openings) rid) post))
    \<and> (2 * EPSILON < seg_length seg \<and> 2 * EPSILON < seg_length seg - width d \<longrightarrow>
          (\<exists>p q. pieces = [p, q] \<and> seg_length p + seg_length q = seg_length seg - width d))
    \<and> (2 * EPSILON < seg_length seg \<and> seg_length seg - width d \<le> 2 * EPSILON \<longrightarrow> pieces = [])
    \<and> (seg_length seg \<le> 2 * EPSILON \<longrightarrow> pieces = [seg])"
proof -
  let ?pieces = "carve_segment EPSILON (openings_by_room_side openings) rid seg"
  have cs: "?pieces = carve_piece EPSILON (WallSegment.side seg) d seg"
    by (rule carve_segment_single [OF one])
  note cp = carve_piece_centered [OF ce al, of EPSILON]
  have two: "\<exists>p q. ?pieces = [p, q] \<and> seg_length p + seg_length q = seg_length seg - width d"
    if h: "2 * EPSILON < seg_length seg \<and> 2 * EPSILON < seg_length seg - width d"
  proof -
    from h cp cs obtain p q where pq: "carve_piece EPSILON (WallSegment.side seg) d seg = [p, q]"
      by (cases "horizontal_side (WallSegment.side seg)") simp_all
    from h centered_pieces_length [OF ce al e0 _ pq]
    have "seg_length p + seg_length q = seg_length seg - width d" by simp
    with pq cs show ?thesis by simp
  qed
  have none: "?pieces = []"
    if "2 * EPSILON < seg_length seg \<and> seg_length seg - width d \<le> 2 * EPSILON"
    using that cp cs by simp
  have same: "?pieces = [seg]" if "seg_length seg \<le> 2 * EPSILON"
    using that cp cs by simp
  from two none same room carve_doors_at [of wall_segments rid pre seg post EPSILON openings]
  show ?thesis by blast
qed

theorem carve_centered_opening_witness:
  "\<exists>p q. carve_doors (1/1000) [1 \<mapsto> [unit_wall]] [half_opening] 1 = Some [p, q]
       \<and> seg_length p + seg_length q = 1 - 1/2"
proof -
  have room: "[1 \<mapsto> [unit_wall]] (1::int) = Some ([] @ unit_wall # [])" by simp
  have one: "matching_openings 1 unit_wall [half_opening] = [half_opening]"
    by (simp add: matching_openings_def unit_wall_def half_opening_def)
  have ce: "centered_opening half_opening unit_wall"
    by (simp add: centered_opening_def horizontal_side_def unit_wall_def half_opening_def)
  have al: "axis_aligned unit_wall"
    by (simp add: axis_aligned_def horizontal_side_def unit_wall_def)
  have e0: "(0::real) \<le> 1/1000" by simp
  have w: "width half_opening = 1/2" by (simp add: half_opening_def)
  from carve_centered_opening [of "[1 \<mapsto> [unit_wall]]" 1 "[]" unit_wall "[]"
      "[half_opening]" half_opening "1/1000"] room one ce al e0
  have "\<exists>pieces. carve_doors (1/1000) [1 \<mapsto> [unit_wall]] [half_opening] 1 = Some pieces
          \<and> (\<exists>p q. pieces = [p, q] \<and> seg_length p + seg_length q = 1 - 1/2)"
    by (simp add: unit_wall_length w)
  then show ?thesis by blast
qed

text \<open>
  Claim C1 as stated fails: the wall of length 1 has exactly one matching opening, centred
  on its span, of width 0.999, which is less than 1; with an epsilon of 0.001 both
  remainders are slivers and carving leaves no piece of the wall instead of two.
\<close>

theorem carve_sliver_counterexample:
  "matching_openings 1 unit_wall [wide_opening] = [wide_opening]
   \<and> centered_opening wide_opening unit_wall
   \<and> width wide_opening < seg_length unit_wall
   \<and> carve_doors (1/1000) [1 \<mapsto> [unit_wall]] [wide_opening] 1 = Some []"
proof -
  have one: "matching_openings 1 unit_wall [wide_opening] = [wide_opening]"
    by (simp add: matching_openings_def unit_wall_def wide_opening_def)
  have ce: "centered_opening wide_opening unit_wall"
    by (simp add: centered_opening_def horizontal_side_def unit_wall_def wide_opening_def)
  have w: "width wide_opening < seg_length unit_wall"
    by (simp add: unit_wall_length wide_opening_def)
  have "carve_piece (1/1000) (WallSegment.side unit_wall) wide_opening unit_wall = []"
    by (simp add: carve_piece_def unit_wall_def wide_opening_def sorted2_def
        split_horizontal_def)
  then have "carve_segment (1/1000) (openings_by_room_side [wide_opening]) 1 unit_wall = []"
    by (simp add: carve_segment_single [OF one])
  then have "carve_doors (1/1000) [1 \<mapsto> [unit_wall]] [wide_opening] 1 = Some []"
    by (simp add: carve_doors_def)
  with one ce w show ?thesis by blast
qed

text \<open>
  The same happens for every positive epsilon: on a wall of length \<open>4 * eps\<close>, a centred
  opening of width \<open>3 * eps\<close> is narrower than the wall and removes all of it.
\<close>

lemma carve_sliver_any_epsilon:
  assumes "0 < eps"
  defines "seg \<equiv> unit_wall\<lparr>x2 := 4 * eps\<rparr>"
  defines "d \<equiv> wide_opening\<lparr>center := (2 * eps, 0), width := 3 * eps\<rparr>"
  shows "width d < seg_length seg \<and> carve_doors eps [1 \<mapsto> [seg]] [d] 1 = Some []"
proof -
  have one: "matching_openings 1 seg [d] = [d]"
    by (simp add: matching_openings_def seg_def d_def unit_wall_def wide_opening_def)
  have ce: "centered_opening d seg"
    by (simp add: centered_opening_def horizontal_side_def seg_def d_def unit_wall_def)
  have al: "axis_aligned seg"
    by (simp add: axis_aligned_def horizontal_side_def seg_def unit_wall_def)
  have "y1 seg = y2 seg" by (simp add: seg_def unit_wall_def)
  from seg_length_horizontal [OF this] assms(1) have L: "seg_length seg = 4 * eps"
    by (simp add: seg_def unit_wall_def)
  have W: "width d = 3 * eps" by (simp add: d_def)
  have "carve_piece eps (WallSegment.side seg) d seg = []"
    using assms(1) by (simp add: carve_piece_centered [OF ce al] L W)
  then have "carve_segment eps (openings_by_room_side [d]) 1 seg = []"
    by (simp add: carve_segment_single [OF one])
  then have "carve_doors eps [1 \<mapsto> [seg]] [d] 1 = Some []"
    by (simp add: carve_doors_def)
  with L W assms(1) show ?thesis by simp
qed

text \<open>
  Claim C2, as amended. Every segment in the output of \<open>carve_doors\<close> for a room is
  either one of the room's input segments, passed through unchanged, or a piece produced by
  a split, and every such piece is longer than \<open>EPSILON\<close>. Hence when every input segment
  of the room is longer than \<open>EPSILON\<close>, so is every output segment, for every sequence of
  openings.
\<close>

theorem carve_doors_pieces_long:
  assumes "wall_segments rid = Some segments"
  shows "\<exists>out. carve_doors EPSILON wall_segments openings rid = Some out
           \<and> (\<forall>q\<in>set out. q \<in> set segments \<or> EPSILON < seg_length q)
           \<and> ((\<forall>s\<in>set segments. EPSILON < seg_length s) \<longrightarrow> (\<forall>q\<in>set out. EPSILON < seg_length q))"
proof -
  let ?out = "concat (map (carve_segment EPSILON (openings_by_room_side openings) rid) segments)"
  have 1: "carve_doors EPSILON wall_segments openings rid = Some ?out"
    using assms by (simp add: carve_doors_def)
  have 2: "\<forall>q\<in>set ?out. q \<in> set segments \<or> EPSILON < seg_length q"
    using carve_segment_inv by fastforce
  from 1 2 show ?thesis by blast
qed

theorem carve_doors_pieces_long_witness:
  "\<exists>out. carve_doors (1/1000) [1 \<mapsto> [unit_wall]] [half_opening, wide_opening] 1 = Some out
         \<and> (\<forall>q\<in>set out. 1/1000 < seg_length q)"
proof -
  have room: "[1 \<mapsto> [unit_wall]] (1::int) = Some [unit_wall]" by simp
  have long: "\<forall>s\<in>set [unit_wall]. 1/1000 < seg_length s" by (simp add: unit_wall_length)
  from carve_doors_pieces_long [of "[1 \<mapsto> [unit_wall]]" 1 "[unit_wall]" "1/1000"
      "[half_opening, wide_opening]"] room long
  show ?thesis by blast
qed

text \<open>
  Claim C2 as stated fails: a wall of length zero with no opening is passed through
  unchanged, so the output holds a segment that is not longer than epsilon.
\<close>

theorem carve_degenerate_counterexample:
  "carve_doors (1/1000) [1 \<mapsto> [point_wall]] [] 1 = Some [point_wall]
   \<and> seg_length point_wall \<le> 1/1000"
  by (simp add: carve_doors_no_openings seg_length_def point_wall_def)

text \<open>
  Claim C9. A segment stored under room \<open>rid\<close> for which no opening has that room and the
  segment's side is returned unchanged, at its place in the room's output. A room with no
  segments stays empty, with no rooms at all the result is empty, with no openings the
  result is the input, and the output has exactly the rooms of the input. \<open>carve_doors\<close> has no failing branch: it is a total
  function to the result type.
\<close>

theorem carve_doors_noop:
  "(wall_segments rid = Some (pre @ seg # post) \<and>
    (\<forall>d\<in>set openings. DoorOpening.room_id d = rid \<longrightarrow> DoorOpening.side d \<noteq> WallSegment.side seg)
    \<longrightarrow> carve_doors EPSILON wall_segments openings rid =
          Some (concat (map (carve_segment EPSILON (openings_by_room_side openings) rid) pre)
                @ seg # concat (map (carve_segment EPSILON (openings_by_room_side openings) rid) post)))
   \<and> (wall_segments rid = Some [] \<longrightarrow> carve_doors EPSILON wall_segments openings rid = Some [])
   \<and> carve_doors EPSILON Map.empty openings = Map.empty
   \<and> carve_doors EPSILON wall_segments [] = wall_segments
   \<and> dom (carve_doors EPSILON wall_segments openings) = dom wall_segments"
proof (intro conjI impI)
  assume h: "wall_segments rid = Some (pre @ seg # post) \<and>
    (\<forall>d\<in>set openings. DoorOpening.room_id d = rid \<longrightarrow> DoorOpening.side d \<noteq> WallSegment.side seg)"
  then have "carve_segment EPSILON (openings_by_room_side openings) rid seg = [seg]"
    by (intro carve_segment_no_match) simp
  with h carve_doors_at [of wall_segments rid pre seg post EPSILON openings]
  show "carve_doors EPSILON wall_segments openings rid =
          Some (concat (map (carve_segment EPSILON (openings_by_room_side openings) rid) pre)
                @ seg # concat (map (carve_segment EPSILON (openings_by_room_side openings) rid) post))"
    by simp
next
  assume "wall_segments rid = Some []"
  then show "carve_doors EPSILON wall_segments openings rid = Some []"
    by (simp add: carve_doors_def)
next
  show "carve_doors EPSILON Map.empty openings = Map.empty" by (rule carve_doors_empty)
next
  show "carve_doors EPSILON wall_segments [] = wall_segments" by (rule carve_doors_no_openings)
next
  show "dom (carve_doors EPSILON wall_segments openings) = dom wall_segments"
    by (auto simp: carve_doors_def dom_def split: option.splits)
qed

theorem carve_doors_noop_witness:
  "carve_doors (1/1000) [1 \<mapsto> [unit_wall]] [south_opening] 1 = Some [unit_wall]"
proof -
  have room: "[1 \<mapsto> [unit_wall]] (1::int) = Some ([] @ unit_wall # [])" by simp
  have nomatch: "\<forall>d\<in>set [south_opening].
      DoorOpening.room_id d = 1 \<longrightarrow> DoorOpening.side d \<noteq> WallSegment.side unit_wall"
    by (simp add: south_opening_def unit_wall_def)
  from carve_doors_noop [of "[1 \<mapsto> [unit_wall]]" 1 "[]" unit_wall "[]" "[south_opening]" "1/1000"]
    room nomatch
  show ?thesis by simp
qed

section \<open>Properties of the roof builder\<close>

text \<open>
  Claim C5. For every footprint and base elevation, \<open>build_roof\<close> returns 2 faces for
  FLAT, 5 for HIP, 5 for GABLED and 6 for SHED; for any other roof type it returns what it
  returns for FLAT, with 2 faces and the type FLAT, and no error.
\<close>

theorem build_roof_face_counts:
  "length (faces (build_roof ROOF_HEIGHT footprint base_z FLAT)) = 2
   \<and> length (faces (build_roof ROOF_HEIGHT footprint base_z HIP)) = 5
   \<and> length (faces (build_roof ROOF_HEIGHT footprint base_z GABLED)) = 5
   \<and> length (faces (build_roof ROOF_HEIGHT footprint base_z SHED)) = 6
   \<and> build_roof ROOF_HEIGHT footprint base_z (Unrecognized other)
       = build_roof ROOF_HEIGHT footprint base_z FLAT
   \<and> length (faces (build_roof ROOF_HEIGHT footprint base_z (Unrecognized other))) = 2
   \<and> roof_type (build_roof ROOF_HEIGHT footprint base_z (Unrecognized other)) = FLAT"
  by (simp add: Let_def)

text \<open>
  Claim C6, as amended. For every rectangular footprint, \<open>build_roof\<close> with GABLED
  produces a ridge line that runs along the y axis, whichever horizontal span of the
  rectangle is the shorter one, at elevation \<open>base_z + ROOF_HEIGHT\<close>, with its two
  endpoints at the midpoint of the x-extent at each y-edge; and two quad slope faces, two
  triangular gable-end faces and one bottom quad, five faces in this order.
\<close>

theorem build_roof_gabled_shape:
  "(let mid_x = (min_x footprint + max_x footprint) / 2;
        ridge_a = (mid_x, min_y footprint, base_z + ROOF_HEIGHT);
        ridge_b = (mid_x, max_y footprint, base_z + ROOF_HEIGHT);
        c0 = (min_x footprint, min_y footprint, base_z);
        c1 = (max_x footprint, min_y footprint, base_z);
        c2 = (max_x footprint, max_y footprint, base_z);
        c3 = (min_x footprint, max_y footprint, base_z);
        g = build_roof ROOF_HEIGHT footprint base_z GABLED
    in ridge_of g = (ridge_a, ridge_b)
     \<and> along_y_axis (ridge_of g)
     \<and> faces g = [RoofFace [c0, ridge_a, ridge_b, c3], RoofFace [c1, c2, ridge_b, ridge_a],
                  RoofFace [c0, c1, ridge_a], RoofFace [c3, ridge_b, c2],
                  RoofFace [c3, c2, c1, c0]]
     \<and> map (length \<circ> vertices) (faces g) = [4, 4, 3, 3, 4]
     \<and> roof_type g = GABLED)"
  by (simp add: Let_def ridge_of_def along_y_axis_def)

text \<open>
  Claim C6 as stated fails: on a footprint 4 wide and 10 deep the shorter horizontal span
  is the x-extent, but the ridge joins \<open>(2, 0, 3)\<close> and \<open>(2, 10, 3)\<close>: it runs along
  the y axis, the longer span, and not along the x axis.
\<close>

theorem gabled_ridge_counterexample:
  "x_span narrow_footprint < y_span narrow_footprint
   \<and> ridge_of (build_roof 3 narrow_footprint 0 GABLED) = ((2, 0, 3), (2, 10, 3))
   \<and> \<not> along_x_axis (ridge_of (build_roof 3 narrow_footprint 0 GABLED))"
  by (simp add: Let_def ridge_of_def along_x_axis_def x_span_def y_span_def narrow_footprint_def)

text \<open>
  Claim C10. For every footprint of positive width and depth, the SHED branch emits faces
  with repeated vertices. The side face at the low edge, \<open>(b3, b0, c0, c3)\<close>, is
  \<open>(b3, b0, b0, b3)\<close> since \<open>c0 = b0\<close> and \<open>c3 = b3\<close>: it has exactly two distinct
  vertex positions, so its area is zero. The side faces at the \<open>min_y\<close> and \<open>max_y\<close>
  edges each repeat one vertex (\<open>c0 = b0\<close> in the former, \<open>c3 = b3\<close> in the latter),
  which leaves three distinct positions when \<open>ROOF_HEIGHT\<close> is not zero.
\<close>

theorem build_roof_shed_degenerate:
  fixes ROOF_HEIGHT base_z :: real and footprint :: Rect
  assumes "min_x footprint < max_x footprint" and "min_y footprint < max_y footprint"
  defines "g \<equiv> build_roof ROOF_HEIGHT footprint base_z SHED"
  defines "b0 \<equiv> (min_x footprint, min_y footprint, base_z)"
  defines "b3 \<equiv> (min_x footprint, max_y footprint, base_z)"
  shows "vertices (faces g ! 4) = [b3, b0, b0, b3]
     \<and> card (set (vertices (faces g ! 4))) = 2
     \<and> \<not> distinct (vertices (faces g ! 1))
     \<and> \<not> distinct (vertices (faces g ! 3))
     \<and> vertices (faces g ! 1) ! 0 = vertices (faces g ! 1) ! 3
     \<and> vertices (faces g ! 3) ! 1 = vertices (faces g ! 3) ! 2
     \<and> card (set (vertices (faces g ! 1))) = (if ROOF_HEIGHT = 0 then 2 else 3)
     \<and> card (set (vertices (faces g ! 3))) = (if ROOF_HEIGHT = 0 then 2 else 3)"
  using assms(1,2) unfolding g_def b0_def b3_def
  by (simp add: Let_def card_insert_if)

theorem build_roof_shed_degenerate_witness:
  "card (set (vertices (faces (build_roof 3 square_footprint 0 SHED) ! 4))) = 2
   \<and> \<not> distinct (vertices (faces (build_roof 3 square_footprint 0 SHED) ! 1))
   \<and> \<not> distinct (vertices (faces (build_roof 3 square_footprint 0 SHED) ! 3))"
proof -
  have 1: "min_x square_footprint < max_x square_footprint"
    and 2: "min_y square_footprint < max_y square_footprint"
    by (simp_all add: square_footprint_def)
  from build_roof_shed_degenerate [OF 1 2, of 3 0] show ?thesis by blast
qed

section \<open>Properties of the golden split and of the seeded generator\<close>

lemma py_round_close: "\<bar>of_int (py_round x) - x\<bar> \<le> 1/2"
proof -
  define d where "d = x - of_int \<lfloor>x\<rfloor>"
  have d0: "0 \<le> d" and d1: "d < 1" unfolding d_def by linarith+
  have x: "x = of_int \<lfloor>x\<rfloor> + d" by (simp add: d_def)
  consider (lo) "d < 1/2" | (hi) "1/2 < d" | (tie) "d = 1/2" by linarith
  then show ?thesis
  proof cases
    case lo
    then have "py_round x = \<lfloor>x\<rfloor>" by (simp add: py_round_def Let_def d_def)
    with lo d0 x show ?thesis by simp
  next
    case hi
    then have "py_round x = \<lfloor>x\<rfloor> + 1" by (simp add: py_round_def Let_def d_def)
    with hi d1 x show ?thesis by simp
  next
    case tie
    then have "py_round x = \<lfloor>x\<rfloor> \<or> py_round x = \<lfloor>x\<rfloor> + 1"
      by (simp add: py_round_def Let_def d_def)
    with tie x show ?thesis by auto
  qed
qed

lemma golden_split_value:
  "fst (golden_split L rng) =
     of_int (py_round ((L / PHI + (shd rng - 1/2) * GOLDEN_RATIO_VARIATION * L) / GRID_UNIT)) * GRID_UNIT"
  by (simp add: golden_split_def rng_random_def Let_def)

lemma golden_split_near:
  "\<bar>fst (golden_split L rng) - (L / PHI + (shd rng - 1/2) * GOLDEN_RATIO_VARIATION * L)\<bar> \<le> GRID_UNIT / 2"
proof -
  define y where "y = L / PHI + (shd rng - 1/2) * GOLDEN_RATIO_VARIATION * L"
  define k :: real where "k = of_int (py_round (y / GRID_UNIT))"
  have "\<bar>k - y / GRID_UNIT\<bar> \<le> 1/2"
    unfolding k_def by (rule py_round_close)
  moreover have "y / GRID_UNIT = 4 * y" by (simp add: GRID_UNIT_def)
  ultimately have "\<bar>k - 4 * y\<bar> \<le> 1/2" by simp
  then have "\<bar>k * (1/4) - y\<bar> \<le> 1/8" by linarith
  moreover have "fst (golden_split L rng) = k * (1/4)"
    unfolding golden_split_value k_def y_def by (simp add: GRID_UNIT_def)
  ultimately have "\<bar>fst (golden_split L rng) - y\<bar> \<le> 1/8" by (simp only:)
  moreover have "GRID_UNIT / 2 = 1/8" by (simp add: GRID_UNIT_def)
  ultimately show ?thesis unfolding y_def by (simp only:)
qed

text \<open>
  Claim C4. For every length greater than zero and every generator state, whose next draw
  lies in \<open>[0, 1)\<close> as \<open>random()\<close> guarantees, the value \<open>golden_split\<close> returns
  lies within \<open>length / PHI\<close> plus or minus
  \<open>GOLDEN_RATIO_VARIATION * length / 2 + GRID_UNIT\<close> and is an integer multiple of
  \<open>GRID_UNIT\<close>; the generator is left one draw further. Arithmetic is exact (real
  numbers stand for the floats of the source).
\<close>

theorem golden_split_bounds:
  assumes "0 < L" and "0 \<le> shd rng" and "shd rng < 1"
  shows "L / PHI - GOLDEN_RATIO_VARIATION * L / 2 - GRID_UNIT \<le> fst (golden_split L rng)
       \<and> fst (golden_split L rng) \<le> L / PHI + GOLDEN_RATIO_VARIATION * L / 2 + GRID_UNIT
       \<and> (\<exists>k::int. fst (golden_split L rng) = of_int k * GRID_UNIT)
       \<and> snd (golden_split L rng) = stl rng"
proof -
  define s where "s = L / PHI"
  define a where "a = GOLDEN_RATIO_VARIATION * L"
  define v where "v = (shd rng - 1/2) * a"
  define r where "r = fst (golden_split L rng)"
  have a0: "0 \<le> a" using assms by (simp add: a_def GOLDEN_RATIO_VARIATION_def)
  have "- (1/2) * a \<le> (shd rng - 1/2) * a"
    using assms a0 by (intro mult_right_mono) simp_all
  then have lo: "- (a / 2) \<le> v" by (simp add: v_def)
  have "(shd rng - 1/2) * a \<le> (1/2) * a"
    using assms a0 by (intro mult_right_mono) simp_all
  then have hi: "v \<le> a / 2" by (simp add: v_def)
  have g: "0 < GRID_UNIT" by (simp add: GRID_UNIT_def)
  have "\<bar>r - (s + v)\<bar> \<le> GRID_UNIT / 2"
    using golden_split_near [of L rng] by (simp add: r_def s_def v_def a_def mult.assoc)
  with lo hi g have "s - a / 2 - GRID_UNIT \<le> r" and "r \<le> s + a / 2 + GRID_UNIT"
    by linarith+
  then have "L / PHI - GOLDEN_RATIO_VARIATION * L / 2 - GRID_UNIT \<le> fst (golden_split L rng)"
    and "fst (golden_split L rng) \<le> L / PHI + GOLDEN_RATIO_VARIATION * L / 2 + GRID_UNIT"
    by (simp_all add: r_def s_def a_def)
  moreover have "\<exists>k::int. fst (golden_split L rng) = of_int k * GRID_UNIT"
    unfolding golden_split_value by blast
  moreover have "snd (golden_split L rng) = stl rng"
    by (simp add: golden_split_def rng_random_def Let_def)
  ultimately show ?thesis by blast
qed

theorem golden_split_bounds_witness:
  "1 / PHI - GOLDEN_RATIO_VARIATION * 1 / 2 - GRID_UNIT \<le> fst (golden_split 1 half_rng)
   \<and> fst (golden_split 1 half_rng) \<le> 1 / PHI + GOLDEN_RATIO_VARIATION * 1 / 2 + GRID_UNIT
   \<and> (\<exists>k::int. fst (golden_split 1 half_rng) = of_int k * GRID_UNIT)"
proof -
  have 1: "(0::real) < 1" by simp
  have 2: "0 \<le> shd half_rng" and 3: "shd half_rng < 1" by (simp_all add: half_rng_def)
  from golden_split_bounds [OF 1 2 3] show ?thesis by blast
qed

subsection \<open>The seed of the generator\<close>

lemma foldr_bytes_horner:
  "int (foldr (\<lambda>x acc. unat x + 256 * acc) (b :: byte list) 0) = horner_sum uint 256 b"
  by (induction b) (simp_all)

lemma horner_bytes_bound:
  "0 \<le> horner_sum uint 256 (b :: byte list) \<and> horner_sum uint 256 b < 256 ^ length b"
proof (induction b)
  case Nil
  then show ?case by simp
next
  case (Cons x b)
  have "uint x < 256" using uint_bounded [of x] by simp
  moreover have "0 \<le> uint x" by simp
  ultimately show ?case using Cons by simp
qed

lemma unpack_eq_word:
  assumes "length (b :: byte list) = 8"
  shows "struct_unpack_Q_le b = Inr (unat (word_rcat (rev b) :: 64 word))"
proof -
  from horner_bytes_bound [of b] assms
  have 0: "0 \<le> horner_sum uint 256 b" and 1: "horner_sum uint 256 b < 2 ^ 64" by simp_all
  have "unat (word_rcat (rev b) :: 64 word) = nat (take_bit 64 (horner_sum uint 256 b))"
    by (simp add: word_rcat_def unat_eq_nat_uint uint_word_of_int_eq)
  also have "\<dots> = nat (horner_sum uint 256 b)"
    using 0 1 by (simp add: take_bit_int_eq_self)
  also have "\<dots> = foldr (\<lambda>x acc. unat x + 256 * acc) b 0"
    using foldr_bytes_horner [of b] by linarith
  finally show ?thesis using assms by (simp add: struct_unpack_Q_le_def)
qed

lemma encode_char_of: "n < 256 \<Longrightarrow> encode [char_of n] = [of_nat n]"
proof -
  assume "n < 256"
  have "(of_char (char_of n) :: byte) = of_nat (of_char (char_of n))"
    by (simp only: of_nat_of_char)
  also have "\<dots> = of_nat (n mod 256)" by simp
  finally show ?thesis using \<open>n < 256\<close> by (simp add: encode_def)
qed

lemma encode_append: "encode (a @ b) = encode a @ encode b"
  by (simp add: encode_def)

lemma encode_str_nat:
  "encode (str_nat n) = map (\<lambda>d. of_nat (48 + d)) (rev (dec_digits n))"
proof (induction n rule: str_nat.induct)
  case (1 n)
  show ?case
  proof (cases "n < 10")
    case True
    then show ?thesis
      by (subst str_nat.simps, subst dec_digits.simps) (simp add: encode_char_of)
  next
    case False
    have m: "48 + n mod 10 < 256" by simp
    from False 1 show ?thesis
      by (subst str_nat.simps, subst dec_digits.simps)
         (simp add: encode_append encode_char_of [OF m])
  qed
qed

lemma encode_str_int: "encode (str_int i) = spec_decimal i"
proof (cases "i < 0")
  case True
  have minus: "encode ''-'' = [0x2D]" by (simp add: encode_def)
  from True have abs: "nat \<bar>i\<bar> = nat (- i)" by simp
  have "encode (str_int i) = encode ''-'' @ encode (str_nat (nat (- i)))"
    using True unfolding str_int_def by (simp only: if_True encode_append)
  also have "\<dots> = [0x2D] @ map (\<lambda>d. of_nat (48 + d)) (rev (dec_digits (nat (- i))))"
    by (simp only: minus encode_str_nat)
  also have "\<dots> = spec_decimal i"
    using True unfolding spec_decimal_def by (simp only: if_True abs)
  finally show ?thesis .
next
  case False
  then have "nat i = nat \<bar>i\<bar>" by simp
  with False show ?thesis
    by (simp add: str_int_def spec_decimal_def encode_str_nat)
qed

lemma encode_name: "encode s = map (\<lambda>c. of_nat (of_char c)) s"
  by (simp add: encode_def of_nat_of_char)

lemma message_eq:
  "encode (str_int seed @ '':'' @ subsystem) = spec_message seed subsystem"
proof -
  have "encode '':'' = [0x3A]" by (simp add: encode_def)
  then show ?thesis
    unfolding spec_message_def encode_append encode_str_int
    by (simp add: encode_name)
qed

subsection \<open>The hashed message determines the seed and the name\<close>

lemma dec_digits_lt10: "d \<in> set (dec_digits n) \<Longrightarrow> d < 10"
proof (induction n rule: dec_digits.induct)
  case (1 n)
  show ?case
  proof (cases "n < 10")
    case True
    with 1(2) show ?thesis by (subst (asm) dec_digits.simps) simp
  next
    case False
    with 1 show ?thesis by (subst (asm) (2) dec_digits.simps) auto
  qed
qed

lemma dec_digits_value: "foldr (\<lambda>d acc. d + 10 * acc) (dec_digits n) 0 = n"
proof (induction n rule: dec_digits.induct)
  case (1 n)
  show ?case
  proof (cases "n < 10")
    case True
    then show ?thesis by (subst dec_digits.simps) simp
  next
    case False
    with 1 show ?thesis by (subst dec_digits.simps) simp
  qed
qed

lemma dec_digits_inj: "dec_digits m = dec_digits n \<Longrightarrow> m = n"
  using dec_digits_value by metis

lemma dec_digits_nonempty: "dec_digits n \<noteq> []"
  by (subst dec_digits.simps) simp

lemma byte_unat: "n < 256 \<Longrightarrow> unat (of_nat n :: byte) = n"
  by (simp add: unat_of_nat)

lemma digit_byte_unat: "d < 10 \<Longrightarrow> unat (of_nat (48 + d) :: byte) = 48 + d"
  by (rule byte_unat) simp

lemma digit_bytes_inj:
  assumes "map (\<lambda>d. of_nat (48 + d) :: byte) xs = map (\<lambda>d. of_nat (48 + d)) ys"
    and "\<forall>d\<in>set xs. d < 10" and "\<forall>d\<in>set ys. d < 10"
  shows "xs = ys"
  using assms
proof (induction xs arbitrary: ys)
  case Nil
  then show ?case by simp
next
  case (Cons x xs)
  then obtain y ys' where ys: "ys = y # ys'" by (cases ys) auto
  with Cons.prems have e: "(of_nat (48 + x) :: byte) = of_nat (48 + y)" and x: "x < 10" and y: "y < 10"
    by simp_all
  from e have "unat (of_nat (48 + x) :: byte) = unat (of_nat (48 + y) :: byte)" by simp
  with digit_byte_unat [OF x] digit_byte_unat [OF y] have "x = y" by simp
  moreover from Cons ys have "xs = ys'" by simp
  ultimately show ?case using ys by simp
qed

lemma digit_bytes_no:
  assumes "\<forall>d\<in>set xs. d < 10" and "b = 0x2D \<or> b = 0x3A"
  shows "(b :: byte) \<notin> set (map (\<lambda>d. of_nat (48 + d)) xs)"
proof
  assume "b \<in> set (map (\<lambda>d. of_nat (48 + d)) xs)"
  then obtain d where d: "d \<in> set xs" and b: "b = of_nat (48 + d)" by auto
  from d assms(1) have "d < 10" by simp
  then have "unat b = 48 + d" unfolding b by (rule digit_byte_unat)
  with assms(2) \<open>d < 10\<close> show False by auto
qed

lemma spec_decimal_no_colon: "(0x3A :: byte) \<notin> set (spec_decimal i)"
  using digit_bytes_no [of "rev (dec_digits (nat \<bar>i\<bar>))" "0x3A"] dec_digits_lt10
  by (auto simp: spec_decimal_def)

lemma spec_decimal_inj:
  assumes "spec_decimal i = spec_decimal j"
  shows "i = j"
proof -
  let ?di = "rev (dec_digits (nat \<bar>i\<bar>))" and ?dj = "rev (dec_digits (nat \<bar>j\<bar>))"
  let ?f = "\<lambda>d. of_nat (48 + d) :: byte"
  have li: "\<forall>d\<in>set ?di. d < 10" and lj: "\<forall>d\<in>set ?dj. d < 10"
    using dec_digits_lt10 by auto
  have ni: "map ?f ?di \<noteq> []" and nj: "map ?f ?dj \<noteq> []"
    using dec_digits_nonempty by simp_all
  have hi: "hd (map ?f ?di) \<noteq> 0x2D"
    using digit_bytes_no [OF li, of "0x2D"] ni by (metis hd_in_set)
  have hj: "hd (map ?f ?dj) \<noteq> 0x2D"
    using digit_bytes_no [OF lj, of "0x2D"] nj by (metis hd_in_set)
  have sign: "i < 0 \<longleftrightarrow> j < 0"
  proof
    assume "i < 0"
    then have "hd (spec_decimal i) = 0x2D" by (simp add: spec_decimal_def)
    with assms have "hd (spec_decimal j) = 0x2D" by simp
    with hj nj show "j < 0" by (cases "j < 0") (simp_all add: spec_decimal_def)
  next
    assume "j < 0"
    then have "hd (spec_decimal j) = 0x2D" by (simp add: spec_decimal_def)
    with assms have "hd (spec_decimal i) = 0x2D" by simp
    with hi ni show "i < 0" by (cases "i < 0") (simp_all add: spec_decimal_def)
  qed
  from assms sign have "map ?f ?di = map ?f ?dj"
    by (cases "i < 0") (simp_all add: spec_decimal_def)
  from digit_bytes_inj [OF this li lj] have "dec_digits (nat \<bar>i\<bar>) = dec_digits (nat \<bar>j\<bar>)"
    by simp
  then have "nat \<bar>i\<bar> = nat \<bar>j\<bar>" by (rule dec_digits_inj)
  with sign show ?thesis by (cases "i < 0") auto
qed

lemma split_at_first:
  assumes "a @ c # b = a' @ c # b'" and "c \<notin> set a" and "c \<notin> set a'"
  shows "a = a' \<and> b = b'"
proof -
  have "takeWhile (\<lambda>x. x \<noteq> c) (a @ c # b) = a"
    using assms(2) by (induction a) auto
  moreover have "takeWhile (\<lambda>x. x \<noteq> c) (a' @ c # b') = a'"
    using assms(3) by (induction a') auto
  ultimately have "a = a'" using assms(1) by simp
  with assms(1) show ?thesis by simp
qed

lemma name_bytes_inj:
  assumes "map (\<lambda>c. of_nat (of_char c) :: byte) s = map (\<lambda>c. of_nat (of_char c)) t"
  shows "s = t"
proof -
  have "inj (\<lambda>c. of_nat (of_char c) :: byte)"
  proof (rule injI)
    fix x y :: char
    assume "(of_nat (of_char x) :: byte) = of_nat (of_char y)"
    then have "unat (of_nat (of_char x) :: byte) = unat (of_nat (of_char y) :: byte)" by simp
    moreover have "(of_char x :: nat) < 256" "(of_char y :: nat) < 256" by simp_all
    ultimately have "(of_char x :: nat) = of_char y" by (simp only: byte_unat)
    then show "x = y" by simp
  qed
  with assms show ?thesis by (simp add: inj_map_eq_map)
qed

lemma spec_message_inj:
  assumes "spec_message s n = spec_message s' n'"
  shows "s = s' \<and> n = n'"
proof -
  from assms have "spec_decimal s @ 0x3A # map (\<lambda>c. of_nat (of_char c)) n
      = spec_decimal s' @ 0x3A # map (\<lambda>c. of_nat (of_char c)) n'"
    by (simp add: spec_message_def)
  from split_at_first [OF this spec_decimal_no_colon spec_decimal_no_colon]
  show ?thesis using spec_decimal_inj name_bytes_inj by blast
qed

subsection \<open>Two calls\<close>

lemma make_rng_run:
  assumes "length (sha256 (spec_message seed subsystem)) = 32"
  shows "make_rng sha256 mt seed subsystem w =
     Inr (\<lparr>obj_id = next_id w, rng_state = mt (spec_sub_seed sha256 seed subsystem)\<rparr>,
          w\<lparr>next_id := Suc (next_id w)\<rparr>)"
proof -
  define h where "h = sha256 (spec_message seed subsystem)"
  have len: "length (take 8 h) = 8" using assms by (simp add: h_def)
  have "make_rng sha256 mt seed subsystem w =
      (case struct_unpack_Q_le (take 8 h) of Inl e \<Rightarrow> Inl e
       | Inr sub_seed \<Rightarrow> Inr (Random mt sub_seed w))"
    unfolding make_rng_def Let_def message_eq h_def ..
  also have "\<dots> = Inr (Random mt (unat (word_rcat (rev (take 8 h)) :: 64 word)) w)"
    unfolding unpack_eq_word [OF len] by simp
  also have "unat (word_rcat (rev (take 8 h)) :: 64 word) = spec_sub_seed sha256 seed subsystem"
    unfolding spec_sub_seed_def h_def ..
  finally show ?thesis by (simp add: Random_def)
qed

lemma spec_sub_seed_u64: "spec_sub_seed sha256 seed subsystem < 2 ^ 64"
proof -
  have "unat (word_rcat (rev (take 8 (sha256 (spec_message seed subsystem)))) :: 64 word)
      < 2 ^ LENGTH(64)"
    by (rule unsigned_less)
  then show ?thesis unfolding spec_sub_seed_def by simp
qed

text \<open>
  Claim C3. For every seed and subsystem name, two calls of \<open>make_rng\<close> return
  generators with identical output sequences: a second call made after the first returns a
  new object with the same sequence, and so does a call made in any other state of the
  process, whatever its entropy source, its clock and the identities of its objects. The
  reason is that the generator is seeded with the little-endian unsigned 64-bit integer
  made of the first 8 bytes of the SHA-256 digest of the string \<open>"{seed}:{subsystem}"\<close>,
  a number below \<open>2 ^ 64\<close> that is computed from the two arguments alone. The digest
  function is any function whose value on that string has the 32 bytes of a SHA-256
  digest; with them \<open>struct.unpack\<close> cannot fail. By \<open>spec_message_inj\<close> the string
  determines the seed and the name, so different pairs are hashed as different messages.
\<close>

theorem make_rng_deterministic:
  assumes "length (sha256 (spec_message seed subsystem)) = 32"
  shows "\<exists>g1 w1.
      make_rng sha256 mt seed subsystem w = Inr (g1, w1)
    \<and> (\<exists>g2 w2. make_rng sha256 mt seed subsystem w1 = Inr (g2, w2)
          \<and> rng_state g2 = rng_state g1 \<and> obj_id g2 \<noteq> obj_id g1)
    \<and> (\<forall>w'. \<exists>g' w''. make_rng sha256 mt seed subsystem w' = Inr (g', w'')
          \<and> rng_state g' = rng_state g1)
    \<and> rng_state g1 = mt (spec_sub_seed sha256 seed subsystem)
    \<and> spec_sub_seed sha256 seed subsystem < 2 ^ 64"
proof -
  have run: "make_rng sha256 mt seed subsystem v =
     Inr (\<lparr>obj_id = next_id v, rng_state = mt (spec_sub_seed sha256 seed subsystem)\<rparr>,
          v\<lparr>next_id := Suc (next_id v)\<rparr>)" for v
    using assms by (rule make_rng_run [of sha256 seed subsystem mt v])
  let ?g = "\<lambda>w. \<lparr>obj_id = next_id w, rng_state = mt (spec_sub_seed sha256 seed subsystem)\<rparr>"
  let ?w1 = "w\<lparr>next_id := Suc (next_id w)\<rparr>"
  have 1: "make_rng sha256 mt seed subsystem w = Inr (?g w, ?w1)" by (rule run)
  have 2: "\<exists>g2 w2. make_rng sha256 mt seed subsystem ?w1 = Inr (g2, w2)
          \<and> rng_state g2 = rng_state (?g w) \<and> obj_id g2 \<noteq> obj_id (?g w)"
    by (simp add: run)
  have 3: "\<forall>w'. \<exists>g' w''. make_rng sha256 mt seed subsystem w' = Inr (g', w'')
          \<and> rng_state g' = rng_state (?g w)"
    by (simp add: run)
  have 4: "rng_state (?g w) = mt (spec_sub_seed sha256 seed subsystem)" by simp
  from 1 2 3 4 spec_sub_seed_u64 [of sha256 seed subsystem] show ?thesis by blast
qed

theorem make_rng_deterministic_witness:
  "\<exists>g1 w1 g2 w2.
      make_rng sample_digest sample_mt 42 ''wall_slots'' world_a = Inr (g1, w1)
    \<and> make_rng sample_digest sample_mt 42 ''wall_slots'' world_b = Inr (g2, w2)
    \<and> rng_state g2 = rng_state g1
    \<and> rng_state g1 = sample_mt (spec_sub_seed sample_digest 42 ''wall_slots'')"
proof -
  have "length (sample_digest (spec_message 42 ''wall_slots'')) = 32"
    by (simp add: sample_digest_def)
  with make_rng_deterministic [of sample_digest 42 "''wall_slots''" sample_mt world_a]
  obtain g1 w1 where
    a: "make_rng sample_digest sample_mt 42 ''wall_slots'' world_a = Inr (g1, w1)"
    and b: "\<forall>w'. \<exists>g' w''. make_rng sample_digest sample_mt 42 ''wall_slots'' w' = Inr (g', w'')
          \<and> rng_state g' = rng_state g1"
    and c: "rng_state g1 = sample_mt (spec_sub_seed sample_digest 42 ''wall_slots'')"
    by blast
  from b obtain g2 w2 where
    "make_rng sample_digest sample_mt 42 ''wall_slots'' world_b = Inr (g2, w2)"
    "rng_state g2 = rng_state g1"
    by blast
  with a c show ?thesis by blast
qed

lemma sample_unpack_value:
  "struct_unpack_Q_le [52, 50, 58, 119, 97, 108, 108, 95] = Inr 6875989896955834932"
  by (simp add: struct_unpack_Q_le_def)

lemma sample_message_value:
  "spec_message 42 ''wall_slots'' = [52, 50, 58, 119, 97, 108, 108, 95, 115, 108, 111, 116, 115]"
  by (simp add: spec_message_def spec_decimal_def dec_digits.simps)

lemma sample_seed_value: "spec_sub_seed sample_digest 42 ''wall_slots'' = 6875989896955834932"
proof -
  have t: "take 8 (sample_digest (spec_message 42 ''wall_slots'')) = [52, 50, 58, 119, 97, 108, 108, 95]"
    by (simp add: sample_message_value sample_digest_def)
  have "length [52, 50, 58, 119, 97, 108, 108, 95 :: byte] = 8" by simp
  from unpack_eq_word [OF this] sample_unpack_value
  have "unat (word_rcat (rev [52, 50, 58, 119, 97, 108, 108, 95 :: byte]) :: 64 word)
      = 6875989896955834932" by simp
  then show ?thesis unfolding spec_sub_seed_def t .
qed

section \<open>Properties of the door builder\<close>

lemma get_DOOR_STANDARDS_fails: "get_DOOR_STANDARDS = Inl (AttributeError ''DOOR_STANDARDS'')"
  by (simp add: get_DOOR_STANDARDS_def config_DOOR_STANDARDS_def)

text \<open>
  Claim C7 does not hold of the code. \<open>build_door\<close> reads \<open>config.DOOR_STANDARDS\<close>
  before any validation, and the module \<open>blenpc/config.py\<close> binds no such name: every
  call raises \<open>AttributeError\<close>. A call with an invalid style, material or swing does not
  raise \<open>ValueError\<close>, and a call with a valid combination does not succeed.
\<close>

theorem build_door_attribute_error:
  "build_door ext sty mat swg nm pos = Inl (AttributeError ''DOOR_STANDARDS'')"
  by (simp add: build_door_def get_DOOR_STANDARDS_fails)

text \<open>
  Claim C8 does not hold of the code. The call
  \<open>build_door("single", "wood", "inward_left")\<close> raises \<open>AttributeError\<close> at the first
  read of \<open>config.DOOR_STANDARDS\<close>: it returns no door, hence no parts, slots or tags.
\<close>

theorem build_door_single_attribute_error:
  "build_door ext ''single'' ''wood'' ''inward_left'' nm pos = Inl (AttributeError ''DOOR_STANDARDS'')
   \<and> (\<nexists>d. build_door ext ''single'' ''wood'' ''inward_left'' nm pos = Inr d)"
  by (simp add: build_door_def get_DOOR_STANDARDS_fails)

end
